theory Spec2Isabelle
  imports Complex_Main "HOL-Library.Word" "HOL-Library.AList"
begin

section \<open>The read path of the array storage engine (tiledb/sm/query/reader.cc)\<close>

text \<open>
  A shallow embedding of class \<open>Reader\<close>. Members keep their names without the
  trailing underscore (\<open>layout_\<close> is \<open>layout\<close>). Every member function becomes a function from
  the reader object (a record) to a status and the updated object. Pointers are options
  (\<open>None\<close> is \<open>nullptr\<close>); a pointer to a caller variable carries the value it points
  to. External collaborators (the domain, the storage manager, the partitioner, the
  tile pipeline) are function-valued fields, so every theorem holds for all of them.
\<close>

subsection \<open>Data model\<close>

type_synonym byte = "8 word"
type_synonym uint64_t = "64 word"

text \<open>A legacy subarray is a flat hyper-rectangle: \<open>2 * dim_num\<close> coordinates.\<close>

type_synonym subarray = "int list"

datatype Layout = ROW_MAJOR | COL_MAJOR | GLOBAL_ORDER | UNORDERED

text \<open>
  The enumerators of \<open>Datatype\<close> that reader.cc names in its dispatch switches, and
  \<open>CHAR\<close> for the enumerators that reach the \<open>default:\<close> label.
\<close>

datatype Datatype =
  INT8 | UINT8 | INT16 | UINT16 | INT32 | UINT32 | INT64 | UINT64 | FLOAT32 | FLOAT64 | CHAR

datatype Status = Ok | ReaderError string | WriterError string | Cancelled | CollaboratorError string

text \<open>
  \<open>AttributeBuffer\<close>: \<open>buffer\<close> and \<open>buffer_var\<close> are the caller's memory (its
  bytes), \<open>buffer_size\<close> and \<open>buffer_var_size\<close> the caller's size variables that
  the reader overwrites. The last two fields are ghost state, not members of the class:
  \<open>written\<close> and \<open>written_var\<close> count the bytes that the reader has copied
  (\<open>memcpy\<close>) into \<open>buffer_\<close> and \<open>buffer_var_\<close> since \<open>reset_buffer_sizes\<close> last
  reset the sizes, that is, during the current partition attempt.
\<close>

record AttributeBuffer =
  buffer :: "byte list option"
  buffer_var :: "byte list option"
  buffer_size :: "uint64_t option"
  buffer_var_size :: "uint64_t option"
  original_buffer_size :: uint64_t
  original_buffer_var_size :: uint64_t
  written :: nat
  written_var :: nat

text \<open>
  Modelled from the spec: the constructor of \<open>AttributeBuffer\<close> (declared in reader.h,
  which is not among the sources). Section 3: capacities are read when the buffer is set
  (\<open>original_size\<close>) and rewritten on return.
\<close>

definition AttributeBuffer_ctor ::
  "byte list option \<Rightarrow> byte list option \<Rightarrow> uint64_t option \<Rightarrow> uint64_t option \<Rightarrow> AttributeBuffer" where
  "AttributeBuffer_ctor b bv bs bvs =
     \<lparr> buffer = b, buffer_var = bv, buffer_size = bs, buffer_var_size = bvs,
       original_buffer_size = (case bs of None \<Rightarrow> 0 | Some n \<Rightarrow> n),
       original_buffer_var_size = (case bvs of None \<Rightarrow> 0 | Some n \<Rightarrow> n),
       written = 0, written_var = 0 \<rparr>"

text \<open>
  The accessors of \<open>ArraySchema\<close> and of its \<open>Domain\<close> that the reader calls.
  \<open>attribute a\<close> is \<open>array_schema->attribute(a) != nullptr\<close>; \<open>split_subarray\<close>
  returns the status and the two halves (\<open>None\<close> for a null half).
\<close>

record ArraySchema =
  dense :: bool
  dim_num :: nat
  coords_type :: Datatype
  is_kv :: bool
  cell_order :: Layout
  coords_size :: uint64_t
  attribute :: "string \<Rightarrow> bool"
  var_size :: "string \<Rightarrow> bool"
  cell_size :: "string \<Rightarrow> uint64_t"
  attr_type :: "string \<Rightarrow> Datatype"
  schema_domain :: subarray
  split_subarray :: "subarray \<Rightarrow> Layout \<Rightarrow> Status \<times> subarray option \<times> subarray option"

text \<open>
  The storage manager: its configuration (\<open>config.get\<close>), the number parser
  \<open>utils::parse::convert\<close> that \<open>init\<close> applies to the configured strings, and the
  estimator of result sizes, which fills a pair of doubles per attribute. A double is
  modelled as a real number.
\<close>

record FragmentMetadata =
  frag_dense :: bool

record StorageManager =
  config_get :: "string \<Rightarrow> Status \<times> string"
  utils_parse_convert :: "string \<Rightarrow> Status \<times> uint64_t"
  array_compute_est_read_buffer_sizes ::
    "FragmentMetadata list \<Rightarrow> subarray \<Rightarrow> Status \<times> (string \<Rightarrow> real \<times> real)"

text \<open>
  The reader object. \<open>attr_buffers\<close> is the unordered map as an association list
  with distinct keys; the loops over it do not depend on the order. The members of \<open>read_state\<close> and \<open>read_state_2\<close> are flattened
  into fields named after their access path. The partitioner of \<open>read_state_2\<close> is an
  abstract state \<open>'p\<close>.
\<close>

record 'p Reader =
  array_schema :: "ArraySchema option"
  storage_manager :: "StorageManager option"
  layout :: Layout
  attributes :: "string list"
  attr_buffers :: "(string \<times> AttributeBuffer) list"
  fragment_metadata :: "FragmentMetadata list"
  sparse_mode :: bool
  memory_budget :: uint64_t
  memory_budget_var :: uint64_t
  read_state_cur_subarray_partition :: "subarray option"
  read_state_subarray :: "subarray option"
  read_state_subarray_partitions :: "subarray list"
  read_state_initialized :: bool
  read_state_overflowed :: bool
  read_state_unsplittable :: bool
  read_state_2_set :: bool
  read_state_2_overflowed :: bool
  read_state_2_unsplittable :: bool
  read_state_2_partitioner :: 'p

text \<open>
  Modelled from the spec: the interface of \<open>SubarrayPartitioner\<close> behind
  \<open>ReadState2::done\<close>, \<open>next\<close> and \<open>split_current\<close> (reader.h and
  subarray_partitioner.h are not among the sources). Section 4.3:
  \<open>next() -> none | partition; split_current() -> ok | unsplittable; done()\<close>. The two
  stepping functions return the status, the unsplittable flag and the new partitioner.
\<close>

record 'p SubarrayPartitioner =
  partitioner_done :: "'p \<Rightarrow> bool"
  partitioner_next :: "'p \<Rightarrow> Status \<times> bool \<times> 'p"
  partitioner_split_current :: "'p \<Rightarrow> Status \<times> bool \<times> 'p"
  partitioner_set_result_budget :: "string \<Rightarrow> uint64_t \<Rightarrow> uint64_t option \<Rightarrow> 'p \<Rightarrow> Status \<times> 'p"
  partitioner_set_memory_budget :: "uint64_t \<Rightarrow> uint64_t \<Rightarrow> 'p \<Rightarrow> Status \<times> 'p"


subsection \<open>Outcomes\<close>

text \<open>
  A call either returns, or the process stops at a failed \<open>assert\<close> or at the
  dereference of a null pointer (\<open>Aborts\<close>), or a loop does not finish (\<open>NoReturn\<close>:
  the fuel of a fuelled loop ran out, or the loop provably never exits).
\<close>

datatype 'a outcome = Returns 'a | Aborts | NoReturn

text \<open>
  \<open>constants::coords\<close>, the name under which the coordinates are requested. It is
  declared in constants.h (not among the sources).
\<close>

definition constants_coords :: string where
  "constants_coords = ''__coords''"

definition deref :: "uint64_t option \<Rightarrow> uint64_t" where
  "deref p = (case p of Some n \<Rightarrow> n | None \<Rightarrow> 0)"

subsection \<open>Buffer sizes\<close>

definition zero_out_buffer_sizes :: "'p Reader \<Rightarrow> 'p Reader" where
  "zero_out_buffer_sizes r =
     r\<lparr>attr_buffers :=
         map (\<lambda>(a, b). (a, b\<lparr>buffer_size := map_option (\<lambda>_. 0) (buffer_size b),
                              buffer_var_size := map_option (\<lambda>_. 0) (buffer_var_size b)\<rparr>))
           (attr_buffers r)\<rparr>"

text \<open>
  \<open>reset_buffer_sizes\<close> and \<open>no_results\<close> dereference \<open>buffer_size_\<close> unchecked;
  \<open>set_buffer\<close> never stores a null \<open>buffer_size_\<close>. \<open>reset_buffer_sizes\<close> starts a
  partition attempt, so it also resets the ghost counters.
\<close>

definition reset_buffer_sizes :: "'p Reader \<Rightarrow> 'p Reader" where
  "reset_buffer_sizes r =
     r\<lparr>attr_buffers :=
         map (\<lambda>(a, b). (a, b\<lparr>buffer_size := map_option (\<lambda>_. original_buffer_size b) (buffer_size b),
                              buffer_var_size :=
                                map_option (\<lambda>_. original_buffer_var_size b) (buffer_var_size b),
                              written := 0, written_var := 0\<rparr>))
           (attr_buffers r)\<rparr>"

definition no_results :: "'p Reader \<Rightarrow> bool" where
  "no_results r = list_all (\<lambda>(a, b). deref (buffer_size b) = 0) (attr_buffers r)"

subsection \<open>Setters\<close>

definition clear_read_state :: "'p Reader \<Rightarrow> 'p Reader" where
  "clear_read_state r =
     r\<lparr>read_state_subarray_partitions := [],
       read_state_subarray := None,
       read_state_cur_subarray_partition := None,
       read_state_initialized := False,
       read_state_overflowed := False\<rparr>"

definition set_array_schema :: "ArraySchema \<Rightarrow> 'p Reader \<Rightarrow> 'p Reader" where
  "set_array_schema schema r =
     (let r1 = r\<lparr>array_schema := Some schema\<rparr>
      in if is_kv schema then r1\<lparr>layout := GLOBAL_ORDER\<rparr> else r1)"


definition set_fragment_metadata :: "FragmentMetadata list \<Rightarrow> 'p Reader \<Rightarrow> 'p Reader" where
  "set_fragment_metadata fm r = r\<lparr>fragment_metadata := fm\<rparr>"

definition set_storage_manager :: "StorageManager \<Rightarrow> 'p Reader \<Rightarrow> 'p Reader" where
  "set_storage_manager sm r = r\<lparr>storage_manager := Some sm\<rparr>"

definition quote :: "string \<Rightarrow> string" where
  "quote a = CHR 0x27 # a @ [CHR 0x27]"

text \<open>
  \<open>set_buffer\<close> for a fixed-sized attribute (or the coordinates). The pointer arguments
  are options; \<open>buffer_size\<close> carries the value of the caller's size variable.
\<close>

definition set_buffer ::
  "'p SubarrayPartitioner \<Rightarrow> string \<Rightarrow> byte list option \<Rightarrow> uint64_t option \<Rightarrow> 'p Reader
     \<Rightarrow> Status \<times> 'p Reader" where
  "set_buffer P attr buffer_arg buffer_size_arg r =
     (if buffer_arg = None \<or> buffer_size_arg = None
      then (ReaderError ''Cannot set buffer; Buffer or buffer size is null'', r)
      else case array_schema r of
        None \<Rightarrow> (ReaderError ''Cannot set buffer; Array schema not set'', r)
      | Some schema \<Rightarrow>
          if attr \<noteq> constants_coords \<and> \<not> attribute schema attr
          then (ReaderError ''Cannot set buffer; Invalid attribute'', r)
          else if attr \<noteq> constants_coords \<and> var_size schema attr
          then (WriterError (''Cannot set buffer; Input attribute '' @ quote attr @ '' is var-sized''), r)
          else
            let attr_exists = (map_of (attr_buffers r) attr \<noteq> None) in
            if read_state_initialized r \<and> \<not> attr_exists
            then (ReaderError (''Cannot set buffer for new attribute '' @ quote attr
                                @ '' after initialization''), r)
            else
              let r1 = (if \<not> attr_exists then r\<lparr>attributes := attributes r @ [attr]\<rparr> else r);
                  r2 = (if read_state_2_set r1
                        then r1\<lparr>read_state_2_partitioner :=
                                 snd (partitioner_set_result_budget P attr (deref buffer_size_arg) None
                                        (read_state_2_partitioner r1))\<rparr>
                        else r1)
              in (Ok, r2\<lparr>attr_buffers :=
                           AList.update attr (AttributeBuffer_ctor buffer_arg None buffer_size_arg None)
                             (attr_buffers r2)\<rparr>))"

text \<open>\<open>set_buffer\<close> for a var-sized attribute: offsets buffer and values buffer.\<close>

definition set_buffer_var ::
  "'p SubarrayPartitioner \<Rightarrow> string \<Rightarrow> byte list option \<Rightarrow> uint64_t option \<Rightarrow> byte list option
     \<Rightarrow> uint64_t option \<Rightarrow> 'p Reader \<Rightarrow> Status \<times> 'p Reader" where
  "set_buffer_var P attr buffer_off buffer_off_size buffer_val buffer_val_size r =
     (if buffer_off = None \<or> buffer_off_size = None \<or> buffer_val = None \<or> buffer_val_size = None
      then (ReaderError ''Cannot set buffer; Buffer or buffer size is null'', r)
      else case array_schema r of
        None \<Rightarrow> (ReaderError ''Cannot set buffer; Array schema not set'', r)
      | Some schema \<Rightarrow>
          if attr \<noteq> constants_coords \<and> \<not> attribute schema attr
          then (WriterError ''Cannot set buffer; Invalid attribute'', r)
          else if \<not> (attr \<noteq> constants_coords \<and> var_size schema attr)
          then (WriterError (''Cannot set buffer; Input attribute '' @ quote attr @ '' is fixed-sized''), r)
          else
            let attr_exists = (map_of (attr_buffers r) attr \<noteq> None) in
            if read_state_initialized r \<and> \<not> attr_exists
            then (ReaderError (''Cannot set buffer for new attribute '' @ quote attr
                                @ '' after initialization''), r)
            else
              let r1 = (if \<not> attr_exists then r\<lparr>attributes := attributes r @ [attr]\<rparr> else r);
                  r2 = (if read_state_2_set r1
                        then r1\<lparr>read_state_2_partitioner :=
                                 snd (partitioner_set_result_budget P attr (deref buffer_off_size)
                                        (Some (deref buffer_val_size)) (read_state_2_partitioner r1))\<rparr>
                        else r1)
              in (Ok, r2\<lparr>attr_buffers :=
                           AList.update attr
                             (AttributeBuffer_ctor buffer_off buffer_val buffer_off_size buffer_val_size)
                             (attr_buffers r2)\<rparr>))"

text \<open>
  \<open>set_sparse_mode\<close>. Like every function below that dereferences \<open>array_schema_\<close>, it
  aborts when the schema is null.
\<close>

definition set_sparse_mode :: "bool \<Rightarrow> 'p Reader \<Rightarrow> (Status \<times> 'p Reader) outcome" where
  "set_sparse_mode sparse_mode_arg r =
     (case array_schema r of
        None \<Rightarrow> Aborts
      | Some schema \<Rightarrow>
          if \<not> dense schema
          then Returns (ReaderError ''Cannot set sparse mode; Only applicable to dense arrays'', r)
          else if \<not> list_all (\<lambda>f. \<not> frag_dense f) (fragment_metadata r)
          then Returns (ReaderError
            ''Cannot set sparse mode; Only applicable to opened dense arrays having only sparse fragments'', r)
          else Returns (Ok, r\<lparr>sparse_mode := sparse_mode_arg\<rparr>))"





subsection \<open>Reader::next_subarray_partition\<close>

text \<open>
  \<open>uint64_t(round(x))\<close>: C's \<open>round\<close> rounds halfway cases away from zero; the
  conversion to \<open>uint64_t\<close> is modelled as reduction modulo \<open>2^64\<close>.
\<close>

definition c_round :: "real \<Rightarrow> int" where
  "c_round x = (if 0 \<le> x then \<lfloor>x + 1 / 2\<rfloor> else - \<lfloor>- x + 1 / 2\<rfloor>)"

definition uint64_of_double :: "real \<Rightarrow> uint64_t" where
  "uint64_of_double x = word_of_int (c_round x)"

text \<open>
  The body of the loop \<open>for (auto& item : est_buffer_sizes)\<close> that decides
  \<open>must_split\<close>. The estimate map has the keys of \<open>buffer_sizes_map\<close>, so the lookup
  finds its key.
\<close>

definition exceeds_budget ::
  "ArraySchema \<Rightarrow> (string \<times> uint64_t \<times> uint64_t) list \<Rightarrow> string \<times> real \<times> real \<Rightarrow> bool" where
  "exceeds_budget schema buffer_sizes_map item =
     (case map_of buffer_sizes_map (fst item) of
        None \<Rightarrow> False
      | Some (buffer_size_v, buffer_var_size_v) \<Rightarrow>
          uint64_of_double (fst (snd item)) > buffer_size_v \<or>
          (var_size schema (fst item) \<and> uint64_of_double (snd (snd item)) > buffer_var_size_v))"

text \<open>
  The \<open>do ... while (!found && !read_state_.subarray_partitions_.empty())\<close> loop, with
  fuel. \<open>Inl\<close> is an early \<open>return st\<close> of the function; \<open>Inr (found, next_partition, r)\<close>
  is the exit of the loop.
\<close>

fun next_subarray_partition_loop ::
  "nat \<Rightarrow> ArraySchema \<Rightarrow> StorageManager \<Rightarrow> (string \<times> uint64_t \<times> uint64_t) list \<Rightarrow> 'p Reader
     \<Rightarrow> (Status \<times> 'p Reader + bool \<times> subarray \<times> 'p Reader) outcome" where
  "next_subarray_partition_loop 0 schema sm buffer_sizes_map r = NoReturn"
| "next_subarray_partition_loop (Suc fuel) schema sm buffer_sizes_map r =
     (case read_state_subarray_partitions r of
        [] \<Rightarrow> Aborts
      | next_partition # rest \<Rightarrow>
          let r1 = r\<lparr>read_state_subarray_partitions := rest\<rparr>;
              est = array_compute_est_read_buffer_sizes sm (fragment_metadata r1) next_partition;
              est_buffer_sizes = map (\<lambda>(a, _). (a, snd est a)) buffer_sizes_map
          in
          if fst est \<noteq> Ok then Returns (Inl (fst est, clear_read_state r1))
          else if list_all (\<lambda>item. fst (snd item) = 0) est_buffer_sizes
          then (if rest = [] then Returns (Inr (False, next_partition, r1))
                else next_subarray_partition_loop fuel schema sm buffer_sizes_map r1)
          else if list_ex (exceeds_budget schema buffer_sizes_map) est_buffer_sizes
          then
            (case split_subarray schema next_partition (layout r1) of
               (st, subarray_1, subarray_2) \<Rightarrow>
                 if st \<noteq> Ok then Returns (Inl (st, clear_read_state r1))
                 else (case (subarray_1, subarray_2) of
                         (Some s1, Some s2) \<Rightarrow>
                           next_subarray_partition_loop fuel schema sm buffer_sizes_map
                             (r1\<lparr>read_state_subarray_partitions := s1 # s2 # rest\<rparr>)
                       | _ \<Rightarrow>
                           Returns (Inr (True, next_partition, r1\<lparr>read_state_unsplittable := True\<rparr>))))
          else Returns (Inr (True, next_partition, r1)))"

text \<open>
  After the loop: a found partition is copied into the current partition (the
  \<open>assert\<close> requires the destination to be allocated); otherwise the current partition
  is freed.
\<close>

definition next_subarray_partition_finish ::
  "bool \<times> subarray \<times> 'p Reader \<Rightarrow> (Status \<times> 'p Reader) outcome" where
  "next_subarray_partition_finish x =
     (case x of (found, next_partition, r) \<Rightarrow>
        if found
        then (case read_state_cur_subarray_partition r of
                None \<Rightarrow> Aborts
              | Some _ \<Rightarrow> Returns (Ok, r\<lparr>read_state_cur_subarray_partition := Some next_partition\<rparr>))
        else Returns (Ok, r\<lparr>read_state_cur_subarray_partition := None\<rparr>))"

definition next_subarray_partition :: "nat \<Rightarrow> 'p Reader \<Rightarrow> (Status \<times> 'p Reader) outcome" where
  "next_subarray_partition fuel r =
     (case array_schema r of
        None \<Rightarrow> Aborts
      | Some schema \<Rightarrow>
          let r0 = r\<lparr>read_state_unsplittable := False\<rparr>;
              split =
                (if read_state_overflowed r0
                 then (case read_state_cur_subarray_partition r0 of
                         None \<Rightarrow> Aborts
                       | Some cur \<Rightarrow>
                           (case split_subarray schema cur (layout r0) of
                              (st, Some s1, Some s2) \<Rightarrow>
                                Returns (Inr (r0\<lparr>read_state_subarray_partitions :=
                                                   s1 # s2 # read_state_subarray_partitions r0\<rparr>))
                            | _ \<Rightarrow> Returns (Inl (Ok, r0\<lparr>read_state_unsplittable := True\<rparr>))))
                 else Returns (Inr r0))
          in
          case split of
            Aborts \<Rightarrow> Aborts
          | NoReturn \<Rightarrow> NoReturn
          | Returns (Inl res) \<Rightarrow> Returns res
          | Returns (Inr r1) \<Rightarrow>
              if read_state_subarray_partitions r1 = []
              then Returns (Ok, r1\<lparr>read_state_cur_subarray_partition := None\<rparr>)
              else
                (case storage_manager r1 of
                   None \<Rightarrow> Aborts
                 | Some sm \<Rightarrow>
                     let buffer_sizes_map =
                           map (\<lambda>(a, b). (a, original_buffer_size b, original_buffer_var_size b))
                             (attr_buffers r1)
                     in
                     (case next_subarray_partition_loop fuel schema sm buffer_sizes_map r1 of
                        Aborts \<Rightarrow> Aborts
                      | NoReturn \<Rightarrow> NoReturn
                      | Returns (Inl res) \<Rightarrow> Returns res
                      | Returns (Inr x) \<Rightarrow> next_subarray_partition_finish x)))"

subsection \<open>Reader::init\<close>






subsection \<open>Reader::sort_coords\<close>



subsection \<open>Reader::Reader\<close>

text \<open>
  The constructor. The members it leaves uninitialised (the budgets and
  \<open>unsplittable_\<close>) and the empty containers get their default values.
\<close>

definition Reader_ctor :: "'p \<Rightarrow> 'p Reader" where
  "Reader_ctor p =
     \<lparr> array_schema = None, storage_manager = None, layout = ROW_MAJOR, attributes = [],
       attr_buffers = [], fragment_metadata = [], sparse_mode = False,
       memory_budget = 0, memory_budget_var = 0,
       read_state_cur_subarray_partition = None, read_state_subarray = None,
       read_state_subarray_partitions = [], read_state_initialized = False,
       read_state_overflowed = False, read_state_unsplittable = False,
       read_state_2_set = False, read_state_2_overflowed = False,
       read_state_2_unsplittable = False, read_state_2_partitioner = p \<rparr>"


subsection \<open>Tiles, cell ranges and memory\<close>

text \<open>
  A tile owns the bytes of one attribute tile. \<open>tile_cell_num\<close> is \<open>Tile::cell_num()\<close>;
  \<open>Tile::size()\<close> is the length of the data. An overlapping tile maps each attribute to a
  pair of tiles (for a var-sized attribute: offsets tile and values tile).
\<close>

record Tile =
  tile_data :: "byte list"
  tile_cell_num :: uint64_t

record OverlappingTile =
  fragment_idx :: nat
  tile_idx :: uint64_t
  full_overlap :: bool
  attr_tiles :: "(string \<times> Tile \<times> Tile) list"

text \<open>
  \<open>OverlappingCellRange\<close>: the members \<open>tile_\<close>, \<open>start_\<close> and \<open>end_\<close>. A null tile
  is an empty cell range.
\<close>

record OverlappingCellRange =
  cr_tile :: "OverlappingTile option"
  cr_start :: uint64_t
  cr_end :: uint64_t

text \<open>
  The functions of datatype.h and constants.h (not among the sources) that the copiers
  call, as parameters: \<open>datatype_size(type)\<close>; the bytes that the pointer
  \<open>constants::fill_value(type)\<close> points to; and the object representation of that pointer
  itself (the bytes of the address).
\<close>

record Constants =
  datatype_size :: "Datatype \<Rightarrow> uint64_t"
  fill_value :: "Datatype \<Rightarrow> byte list"
  fill_value_pointer :: "Datatype \<Rightarrow> byte list"

text \<open>
  Modelled from the spec: \<open>constants::cell_var_offset_size\<close> (constants.h is not among
  the sources). Section 4.1: the offsets tile stores 64-bit offsets.
\<close>

definition cell_var_offset_size :: uint64_t where
  "cell_var_offset_size = 8"

text \<open>
  \<open>memcpy\<close> into a destination at an offset, and the source bytes of a \<open>memcpy\<close>.
  An access outside the allocated bytes has no defined behaviour in the source; the model
  makes it \<open>None\<close>, and the callers abort.
\<close>

definition memcpy :: "byte list \<Rightarrow> nat \<Rightarrow> byte list \<Rightarrow> byte list option" where
  "memcpy dst off src =
     (if off + length src \<le> length dst
      then Some (take off dst @ src @ drop (off + length src) dst)
      else None)"

definition mem_read :: "byte list \<Rightarrow> nat \<Rightarrow> nat \<Rightarrow> byte list option" where
  "mem_read src off n = (if off + n \<le> length src then Some (take n (drop off src)) else None)"

text \<open>
  The copy loops run under \<open>parallel_for\<close>; each iteration issues \<open>memcpy\<close> calls.
  A write is one such call: the destination offset and the bytes. The model collects the
  writes of all iterations in index order and applies them to the caller's buffer.
\<close>

type_synonym mem_write = "nat \<times> byte list"

fun apply_writes :: "byte list \<Rightarrow> mem_write list \<Rightarrow> byte list option" where
  "apply_writes buf [] = Some buf"
| "apply_writes buf ((off, bytes) # ws) =
     (case memcpy buf off bytes of None \<Rightarrow> None | Some buf1 \<Rightarrow> apply_writes buf1 ws)"

definition bytes_written :: "mem_write list \<Rightarrow> nat" where
  "bytes_written ws = sum_list (map (\<lambda>w. length (snd w)) ws)"

text \<open>The object representation of a \<open>uint64_t\<close> (little-endian) and its inverse.\<close>

definition bytes_of_uint64 :: "uint64_t \<Rightarrow> byte list" where
  "bytes_of_uint64 w = map (\<lambda>i. ucast (drop_bit (8 * i) w)) [0 ..< 8]"

definition uint64_of_bytes :: "byte list \<Rightarrow> uint64_t" where
  "uint64_of_bytes bs = foldr (\<lambda>b acc. ucast b + 256 * acc) bs 0"

text \<open>\<open>((uint64_t*)tile.data())[i]\<close>\<close>

definition tile_offsets :: "Tile \<Rightarrow> uint64_t \<Rightarrow> uint64_t option" where
  "tile_offsets t i = map_option uint64_of_bytes (mem_read (tile_data t) (8 * unat i) 8)"

text \<open>
  The cells of \<open>for (auto cell_idx = cr.start_; cell_idx <= cr.end_; cell_idx++)\<close>.
  With \<open>end_ = UINT64_MAX\<close> the condition never fails and the loop does not exit.
\<close>

definition cell_indices :: "OverlappingCellRange \<Rightarrow> uint64_t list option" where
  "cell_indices cr =
     (if cr_end cr = - 1 then None
      else Some (map word_of_nat [unat (cr_start cr) ..< Suc (unat (cr_end cr))]))"

subsection \<open>Reader::copy_fixed_cells\<close>

definition bytes_to_copy :: "uint64_t \<Rightarrow> OverlappingCellRange \<Rightarrow> uint64_t" where
  "bytes_to_copy cell_size_v cr = (cr_end cr - cr_start cr + 1) * cell_size_v"

text \<open>
  The sequential precomputation of the destination offsets: the list \<open>cr_offsets\<close> and
  the final \<open>buffer_offset\<close>, in \<open>uint64_t\<close> arithmetic.
\<close>

fun fixed_cr_offsets ::
  "uint64_t \<Rightarrow> uint64_t \<Rightarrow> OverlappingCellRange list \<Rightarrow> uint64_t list \<times> uint64_t" where
  "fixed_cr_offsets cell_size_v buffer_offset [] = ([], buffer_offset)"
| "fixed_cr_offsets cell_size_v buffer_offset (cr # crs) =
     (case fixed_cr_offsets cell_size_v (buffer_offset + bytes_to_copy cell_size_v cr) crs of
        (offs, tot) \<Rightarrow> (buffer_offset # offs, tot))"

text \<open>
  One iteration of the parallel copy: the \<open>assert\<close>, then either \<open>fill_num\<close> copies of
  the fill value (empty range) or one copy out of the attribute's tile.
\<close>

definition fixed_range_writes ::
  "uint64_t \<Rightarrow> uint64_t \<Rightarrow> byte list \<Rightarrow> string \<Rightarrow> uint64_t \<Rightarrow> OverlappingCellRange \<Rightarrow> uint64_t
     \<Rightarrow> mem_write list outcome" where
  "fixed_range_writes cell_size_v fill_size fill_value_v attr buffer_size_v cr offset =
     (if \<not> (offset + bytes_to_copy cell_size_v cr \<le> buffer_size_v) then Aborts
      else case cr_tile cr of
        None \<Rightarrow>
          if fill_size = 0 then Aborts
          else (case mem_read fill_value_v 0 (unat fill_size) of
                  None \<Rightarrow> Aborts
                | Some fill \<Rightarrow>
                    Returns (map (\<lambda>j. (unat (offset + word_of_nat j * fill_size), fill))
                               [0 ..< unat (bytes_to_copy cell_size_v cr div fill_size)]))
      | Some t \<Rightarrow>
          (case map_of (attr_tiles t) attr of
             None \<Rightarrow> Aborts
           | Some (tile, tile_var) \<Rightarrow>
               (case mem_read (tile_data tile) (unat (cr_start cr * cell_size_v))
                       (unat (bytes_to_copy cell_size_v cr)) of
                  None \<Rightarrow> Aborts
                | Some bytes \<Rightarrow> Returns [(unat offset, bytes)])))"

fun fixed_writes ::
  "uint64_t \<Rightarrow> uint64_t \<Rightarrow> byte list \<Rightarrow> string \<Rightarrow> uint64_t \<Rightarrow> OverlappingCellRange list
     \<Rightarrow> uint64_t list \<Rightarrow> mem_write list outcome" where
  "fixed_writes cell_size_v fill_size fill_value_v attr buffer_size_v (cr # crs) (off # offs) =
     (case fixed_range_writes cell_size_v fill_size fill_value_v attr buffer_size_v cr off of
        Returns ws \<Rightarrow>
          (case fixed_writes cell_size_v fill_size fill_value_v attr buffer_size_v crs offs of
             Returns ws' \<Rightarrow> Returns (ws @ ws')
           | other \<Rightarrow> other)
      | other \<Rightarrow> other)"
| "fixed_writes cell_size_v fill_size fill_value_v attr buffer_size_v crs offs = Returns []"

text \<open>
  \<open>overflow\<close> sets the flag of both read states, as both copiers do before their early
  return.
\<close>

definition set_overflowed :: "'p Reader \<Rightarrow> 'p Reader" where
  "set_overflowed r = r\<lparr>read_state_overflowed := True, read_state_2_overflowed := True\<rparr>"

definition copy_fixed_cells ::
  "Constants \<Rightarrow> string \<Rightarrow> OverlappingCellRange list \<Rightarrow> 'p Reader \<Rightarrow> (Status \<times> 'p Reader) outcome" where
  "copy_fixed_cells C attr cell_ranges r =
     (case (map_of (attr_buffers r) attr, array_schema r) of
        (Some ab, Some schema) \<Rightarrow>
          (case buffer_size ab of
             None \<Rightarrow> Aborts
           | Some buffer_size_v \<Rightarrow>
               let cell_size_v = cell_size schema attr;
                   type = attr_type schema attr;
                   fill_size = datatype_size C type;
                   fill_value_v = fill_value C type;
                   pre = fixed_cr_offsets cell_size_v 0 cell_ranges
               in
               if snd pre > buffer_size_v
               then Returns (Ok, set_overflowed r)
               else
                 (case fixed_writes cell_size_v fill_size fill_value_v attr buffer_size_v
                         cell_ranges (fst pre) of
                    Returns ws \<Rightarrow>
                      (case buffer ab of
                         None \<Rightarrow> Aborts
                       | Some buf \<Rightarrow>
                           (case apply_writes buf ws of
                              None \<Rightarrow> Aborts
                            | Some buf1 \<Rightarrow>
                                Returns (Ok, r\<lparr>attr_buffers :=
                                  AList.update attr
                                    (ab\<lparr>buffer := Some buf1, buffer_size := Some (snd pre),
                                        written := written ab + bytes_written ws\<rparr>)
                                    (attr_buffers r)\<rparr>)))
                  | Aborts \<Rightarrow> Aborts
                  | NoReturn \<Rightarrow> NoReturn))
      | _ \<Rightarrow> Aborts)"

subsection \<open>Reader::compute_var_cell_destinations and Reader::copy_var_cells\<close>

text \<open>
  The tile information of a cell range: nothing for an empty range, otherwise the pair of
  tiles of the attribute (\<open>find(attribute)->second\<close>; a missing entry aborts).
\<close>

definition tile_info :: "string \<Rightarrow> OverlappingCellRange \<Rightarrow> (Tile \<times> Tile) option outcome" where
  "tile_info attr cr =
     (case cr_tile cr of
        None \<Rightarrow> Returns None
      | Some t \<Rightarrow> (case map_of (attr_tiles t) attr of None \<Rightarrow> Aborts | Some p \<Rightarrow> Returns (Some p)))"

text \<open>
  The size of one var-sized cell: the fill size for an empty range, otherwise the
  difference of consecutive offsets, or for the last cell of the tile what remains of the
  values tile.
\<close>

definition cell_var_size :: "uint64_t \<Rightarrow> (Tile \<times> Tile) option \<Rightarrow> uint64_t \<Rightarrow> uint64_t option" where
  "cell_var_size fill_size info cell_idx =
     (case info of
        None \<Rightarrow> Some fill_size
      | Some (tile, tile_var) \<Rightarrow>
          if cell_idx \<noteq> tile_cell_num tile - 1
          then (case (tile_offsets tile (cell_idx + 1), tile_offsets tile cell_idx) of
                  (Some a, Some b) \<Rightarrow> Some (a - b)
                | _ \<Rightarrow> None)
          else (case (tile_offsets tile cell_idx, tile_offsets tile 0) of
                  (Some a, Some z) \<Rightarrow> Some (word_of_nat (length (tile_data tile_var)) - (a - z))
                | _ \<Rightarrow> None))"

text \<open>
  The inner loop over the cells of one range: it records the running totals as the
  destinations of the cell and advances them. The result is the two destination vectors
  of the range and the new totals.
\<close>

fun var_cells_destinations ::
  "(uint64_t \<Rightarrow> uint64_t option) \<Rightarrow> uint64_t list \<Rightarrow> uint64_t \<Rightarrow> uint64_t
     \<Rightarrow> (uint64_t list \<times> uint64_t list \<times> uint64_t \<times> uint64_t) option" where
  "var_cells_destinations size_of [] total_offset_size total_var_size =
     Some ([], [], total_offset_size, total_var_size)"
| "var_cells_destinations size_of (cell_idx # cells) total_offset_size total_var_size =
     (case size_of cell_idx of
        None \<Rightarrow> None
      | Some sz \<Rightarrow>
          (case var_cells_destinations size_of cells
                  (total_offset_size + cell_var_offset_size) (total_var_size + sz) of
             None \<Rightarrow> None
           | Some (oo, vo, t1, t2) \<Rightarrow> Some (total_offset_size # oo, total_var_size # vo, t1, t2)))"

fun var_cell_destinations_from ::
  "uint64_t \<Rightarrow> string \<Rightarrow> OverlappingCellRange list \<Rightarrow> uint64_t \<Rightarrow> uint64_t
     \<Rightarrow> (uint64_t list list \<times> uint64_t list list \<times> uint64_t \<times> uint64_t) outcome" where
  "var_cell_destinations_from fill_size attr [] total_offset_size total_var_size =
     Returns ([], [], total_offset_size, total_var_size)"
| "var_cell_destinations_from fill_size attr (cr # crs) total_offset_size total_var_size =
     (case tile_info attr cr of
        Aborts \<Rightarrow> Aborts
      | NoReturn \<Rightarrow> NoReturn
      | Returns info \<Rightarrow>
          (case cell_indices cr of
             None \<Rightarrow> NoReturn
           | Some cells \<Rightarrow>
               (case var_cells_destinations (cell_var_size fill_size info) cells
                       total_offset_size total_var_size of
                  None \<Rightarrow> Aborts
                | Some (oo, vo, t1, t2) \<Rightarrow>
                    (case var_cell_destinations_from fill_size attr crs t1 t2 of
                       Returns (oos, vos, t3, t4) \<Rightarrow> Returns (oo # oos, vo # vos, t3, t4)
                     | Aborts \<Rightarrow> Aborts
                     | NoReturn \<Rightarrow> NoReturn))))"

definition compute_var_cell_destinations ::
  "Constants \<Rightarrow> ArraySchema \<Rightarrow> string \<Rightarrow> OverlappingCellRange list
     \<Rightarrow> (uint64_t list list \<times> uint64_t list list \<times> uint64_t \<times> uint64_t) outcome" where
  "compute_var_cell_destinations C schema attr cell_ranges =
     var_cell_destinations_from (datatype_size C (attr_type schema attr)) attr cell_ranges 0 0"

text \<open>
  One cell of the second pass: the \<open>memcpy\<close> of the offset (the bytes of the local
  \<open>var_offset\<close>) into the offsets buffer and the \<open>memcpy\<close> of the value into the values
  buffer. For an empty range the source of the second copy is \<open>&fill_value\<close>, the
  address of the local pointer variable, so the bytes copied are those of the pointer.
\<close>

definition var_cell_writes ::
  "uint64_t \<Rightarrow> byte list \<Rightarrow> (Tile \<times> Tile) option \<Rightarrow> uint64_t \<times> uint64_t \<times> uint64_t
     \<Rightarrow> (mem_write \<times> mem_write) option" where
  "var_cell_writes fill_size fill_value_ptr info x =
     (case x of (cell_idx, offset_dest, var_offset) \<Rightarrow>
        (case mem_read (bytes_of_uint64 var_offset) 0 (unat cell_var_offset_size) of
           None \<Rightarrow> None
         | Some offset_bytes \<Rightarrow>
             (case info of
                None \<Rightarrow>
                  (case mem_read fill_value_ptr 0 (unat fill_size) of
                     None \<Rightarrow> None
                   | Some bytes \<Rightarrow> Some ((unat offset_dest, offset_bytes), (unat var_offset, bytes)))
              | Some (tile, tile_var) \<Rightarrow>
                  (case (cell_var_size fill_size info cell_idx, tile_offsets tile cell_idx,
                         tile_offsets tile 0) of
                     (Some sz, Some a, Some z) \<Rightarrow>
                       (case mem_read (tile_data tile_var) (unat (a - z)) (unat sz) of
                          None \<Rightarrow> None
                        | Some bytes \<Rightarrow>
                            Some ((unat offset_dest, offset_bytes), (unat var_offset, bytes)))
                   | _ \<Rightarrow> None))))"

fun var_cells_writes ::
  "uint64_t \<Rightarrow> byte list \<Rightarrow> (Tile \<times> Tile) option \<Rightarrow> (uint64_t \<times> uint64_t \<times> uint64_t) list
     \<Rightarrow> (mem_write list \<times> mem_write list) option" where
  "var_cells_writes fill_size fill_value_ptr info [] = Some ([], [])"
| "var_cells_writes fill_size fill_value_ptr info (x # xs) =
     (case var_cell_writes fill_size fill_value_ptr info x of
        None \<Rightarrow> None
      | Some (ow, vw) \<Rightarrow>
          (case var_cells_writes fill_size fill_value_ptr info xs of
             None \<Rightarrow> None
           | Some (ows, vws) \<Rightarrow> Some (ow # ows, vw # vws)))"

text \<open>
  The parallel loop over the cell ranges, each with its two destination vectors.
\<close>

fun var_writes ::
  "uint64_t \<Rightarrow> byte list \<Rightarrow> string \<Rightarrow> OverlappingCellRange list \<Rightarrow> uint64_t list list
     \<Rightarrow> uint64_t list list \<Rightarrow> (mem_write list \<times> mem_write list) outcome" where
  "var_writes fill_size fill_value_ptr attr (cr # crs) (oo # oos) (vo # vos) =
     (case tile_info attr cr of
        Aborts \<Rightarrow> Aborts
      | NoReturn \<Rightarrow> NoReturn
      | Returns info \<Rightarrow>
          (case cell_indices cr of
             None \<Rightarrow> NoReturn
           | Some cells \<Rightarrow>
               (case var_cells_writes fill_size fill_value_ptr info (zip cells (zip oo vo)) of
                  None \<Rightarrow> Aborts
                | Some (ows, vws) \<Rightarrow>
                    (case var_writes fill_size fill_value_ptr attr crs oos vos of
                       Returns (ows', vws') \<Rightarrow> Returns (ows @ ows', vws @ vws')
                     | Aborts \<Rightarrow> Aborts
                     | NoReturn \<Rightarrow> NoReturn))))"
| "var_writes fill_size fill_value_ptr attr crs oos vos = Returns ([], [])"

definition copy_var_cells ::
  "Constants \<Rightarrow> string \<Rightarrow> OverlappingCellRange list \<Rightarrow> 'p Reader \<Rightarrow> (Status \<times> 'p Reader) outcome" where
  "copy_var_cells C attr cell_ranges r =
     (case (map_of (attr_buffers r) attr, array_schema r) of
        (Some ab, Some schema) \<Rightarrow>
          (case compute_var_cell_destinations C schema attr cell_ranges of
             Aborts \<Rightarrow> Aborts
           | NoReturn \<Rightarrow> NoReturn
           | Returns (offset_offsets_per_cr, var_offsets_per_cr, total_offset_size, total_var_size) \<Rightarrow>
               (case buffer_size ab of
                  None \<Rightarrow> Aborts
                | Some buffer_size_v \<Rightarrow>
                    if total_offset_size > buffer_size_v then Returns (Ok, set_overflowed r)
                    else
                      (case buffer_var_size ab of
                         None \<Rightarrow> Aborts
                       | Some buffer_var_size_v \<Rightarrow>
                           if total_var_size > buffer_var_size_v then Returns (Ok, set_overflowed r)
                           else
                             (case var_writes (datatype_size C (attr_type schema attr))
                                     (fill_value_pointer C (attr_type schema attr)) attr cell_ranges
                                     offset_offsets_per_cr var_offsets_per_cr of
                                Aborts \<Rightarrow> Aborts
                              | NoReturn \<Rightarrow> NoReturn
                              | Returns (ows, vws) \<Rightarrow>
                                  (case (buffer ab, buffer_var ab) of
                                     (Some buf, Some buf_var) \<Rightarrow>
                                       (case (apply_writes buf ows, apply_writes buf_var vws) of
                                          (Some buf1, Some buf_var1) \<Rightarrow>
                                            Returns (Ok, r\<lparr>attr_buffers :=
                                              AList.update attr
                                                (ab\<lparr>buffer := Some buf1, buffer_var := Some buf_var1,
                                                    buffer_size := Some total_offset_size,
                                                    buffer_var_size := Some total_var_size,
                                                    written := written ab + bytes_written ows,
                                                    written_var := written_var ab + bytes_written vws\<rparr>)
                                                (attr_buffers r)\<rparr>)
                                        | _ \<Rightarrow> Aborts)
                                   | _ \<Rightarrow> Aborts)))))
      | _ \<Rightarrow> Aborts)"



subsection \<open>Reader::copy_cells\<close>

definition copy_cells ::
  "Constants \<Rightarrow> string \<Rightarrow> OverlappingCellRange list \<Rightarrow> 'p Reader \<Rightarrow> (Status \<times> 'p Reader) outcome" where
  "copy_cells C attr cell_ranges r =
     (if cell_ranges = [] then Returns (Ok, zero_out_buffer_sizes r)
      else case array_schema r of
        None \<Rightarrow> Aborts
      | Some schema \<Rightarrow>
          if var_size schema attr then copy_var_cells C attr cell_ranges r
          else copy_fixed_cells C attr cell_ranges r)"


subsection \<open>The stages before the copy\<close>

text \<open>
  Tile planning, fetching, filtering, the coordinate engine and the construction of the
  cell ranges do their work on tiles, not on the reader's buffers, sizes or flags. They
  are collaborators: for the current reader each returns the status of its chain of
  \<open>RETURN_CANCEL_OR_ERROR\<close> steps and the list of cell ranges it hands to the
  copiers. \<open>dense_coords_slabs\<close> is the \<open>DenseCellRangeIter\<close> that \<open>fill_coords\<close>
  walks: the status of \<open>begin()\<close> and, for each range, the start coordinates and the
  range bounds. \<open>coord_bytes\<close> is the object representation of a coordinate of the
  domain type \<open>T\<close>, \<open>sizeof_T\<close> its size.
\<close>

record CoordSlab =
  slab_coords_start :: "int list"
  slab_range_start :: uint64_t
  slab_range_end :: uint64_t

record 'p Pipeline =
  cancellation_in_progress :: "'p Reader \<Rightarrow> bool"
  sparse_read_cell_ranges :: "'p Reader \<Rightarrow> Status \<times> OverlappingCellRange list"
  dense_read_cell_ranges :: "'p Reader \<Rightarrow> Status \<times> OverlappingCellRange list"
  sparse_read_2_cell_ranges :: "'p Reader \<Rightarrow> Status \<times> OverlappingCellRange list"
  read_and_filter_tiles_2 ::
    "'p Reader \<Rightarrow> string \<Rightarrow> OverlappingCellRange list \<Rightarrow> Status \<times> OverlappingCellRange list"
  dense_coords_slabs :: "'p Reader \<Rightarrow> Status \<times> CoordSlab list"
  coord_bytes :: "int \<Rightarrow> byte list"
  sizeof_T :: uint64_t

text \<open>
  Modelled from the spec: the macro \<open>RETURN_CANCEL_OR_ERROR\<close> (query_macros.h is not
  among the sources). Section 5: the cancellation token is polled at every such boundary,
  and cancellation takes priority over other errors observed in the same stage. The
  result is the status the macro returns with, or \<open>Ok\<close> when execution continues.
\<close>

definition cancel_or_error :: "'p Pipeline \<Rightarrow> Status \<Rightarrow> 'p Reader \<Rightarrow> Status" where
  "cancel_or_error E st r = (if cancellation_in_progress E r then Cancelled else st)"

definition has_coords :: "'p Reader \<Rightarrow> bool" where
  "has_coords r \<longleftrightarrow> map_of (attr_buffers r) constants_coords \<noteq> None"

subsection \<open>Reader::sparse_read\<close>

text \<open>The loop \<open>for (const auto& attr : attributes_)\<close> of \<open>sparse_read\<close>.\<close>

fun sparse_read_copy ::
  "Constants \<Rightarrow> 'p Pipeline \<Rightarrow> OverlappingCellRange list \<Rightarrow> string list \<Rightarrow> 'p Reader
     \<Rightarrow> (Status \<times> 'p Reader) outcome" where
  "sparse_read_copy C E cell_ranges [] r = Returns (Ok, r)"
| "sparse_read_copy C E cell_ranges (attr # attrs) r =
     (if read_state_overflowed r then Returns (Ok, r)
      else case copy_cells C attr cell_ranges r of
        Returns (st, r1) \<Rightarrow>
          if cancel_or_error E st r1 \<noteq> Ok then Returns (cancel_or_error E st r1, r1)
          else sparse_read_copy C E cell_ranges attrs r1
      | Aborts \<Rightarrow> Aborts
      | NoReturn \<Rightarrow> NoReturn)"

definition sparse_read_T :: "Constants \<Rightarrow> 'p Pipeline \<Rightarrow> 'p Reader \<Rightarrow> (Status \<times> 'p Reader) outcome" where
  "sparse_read_T C E r =
     (case sparse_read_cell_ranges E r of
        (st, cell_ranges) \<Rightarrow>
          if st \<noteq> Ok then Returns (st, r)
          else sparse_read_copy C E cell_ranges (attributes r) r)"

definition sparse_read :: "Constants \<Rightarrow> 'p Pipeline \<Rightarrow> 'p Reader \<Rightarrow> (Status \<times> 'p Reader) outcome" where
  "sparse_read C E r =
     (case array_schema r of
        None \<Rightarrow> Aborts
      | Some schema \<Rightarrow>
          if coords_type schema \<in> {INT8, UINT8, INT16, UINT16, INT32, UINT32, INT64, UINT64,
                                   FLOAT32, FLOAT64}
          then sparse_read_T C E r
          else Returns (ReaderError ''Cannot read; Unsupported domain type'', r))"

subsection \<open>Reader::fill_coords and Reader::dense_read\<close>

text \<open>
  One cell of \<open>fill_coords_row_slab\<close> (\<open>row\<close>) or \<open>fill_coords_col_slab\<close>: the
  copies it issues at the running offset, and the advanced offset.
\<close>

definition fill_coords_cell ::
  "bool \<Rightarrow> 'p Pipeline \<Rightarrow> nat \<Rightarrow> int list \<Rightarrow> nat \<Rightarrow> uint64_t \<Rightarrow> (mem_write list \<times> uint64_t) option" where
  "fill_coords_cell row E dim_num_v start i offset =
     (if dim_num_v = 0 \<or> length start < dim_num_v then None
      else
        let rest_size = word_of_nat (dim_num_v - 1) * sizeof_T E in
        if row
        then
          (case (mem_read (concat (map (coord_bytes E) start)) 0 (unat rest_size),
                 mem_read (coord_bytes E (start ! (dim_num_v - 1) + int i)) 0 (unat (sizeof_T E))) of
             (Some bytes, Some new_coord) \<Rightarrow>
               if dim_num_v > 1
               then Some ([(unat offset, bytes), (unat (offset + rest_size), new_coord)],
                          offset + rest_size + sizeof_T E)
               else Some ([(unat offset, new_coord)], offset + sizeof_T E)
           | _ \<Rightarrow> None)
        else
          (case (mem_read (coord_bytes E (start ! 0 + int i)) 0 (unat (sizeof_T E)),
                 mem_read (concat (map (coord_bytes E) (tl start))) 0 (unat rest_size)) of
             (Some new_coord, Some bytes) \<Rightarrow>
               if dim_num_v > 1
               then Some ([(unat offset, new_coord), (unat (offset + sizeof_T E), bytes)],
                          offset + sizeof_T E + rest_size)
               else Some ([(unat offset, new_coord)], offset + sizeof_T E)
           | _ \<Rightarrow> None))"

fun fill_coords_slab ::
  "bool \<Rightarrow> 'p Pipeline \<Rightarrow> nat \<Rightarrow> int list \<Rightarrow> nat list \<Rightarrow> uint64_t \<Rightarrow> (mem_write list \<times> uint64_t) option" where
  "fill_coords_slab row E dim_num_v start [] offset = Some ([], offset)"
| "fill_coords_slab row E dim_num_v start (i # cells) offset =
     (case fill_coords_cell row E dim_num_v start i offset of
        None \<Rightarrow> None
      | Some (ws, offset1) \<Rightarrow>
          (case fill_coords_slab row E dim_num_v start cells offset1 of
             None \<Rightarrow> None
           | Some (ws', offset2) \<Rightarrow> Some (ws @ ws', offset2)))"

text \<open>
  The loop of \<open>fill_coords\<close> over the slabs. The result is the writes issued so far, the
  offset, and whether the loop stopped on overflow.
\<close>

fun fill_coords_loop ::
  "bool \<Rightarrow> 'p Pipeline \<Rightarrow> nat \<Rightarrow> uint64_t \<Rightarrow> uint64_t \<Rightarrow> CoordSlab list \<Rightarrow> uint64_t
     \<Rightarrow> (mem_write list \<times> uint64_t \<times> bool) option" where
  "fill_coords_loop row E dim_num_v coords_size_v coords_buff_size [] offset = Some ([], offset, False)"
| "fill_coords_loop row E dim_num_v coords_size_v coords_buff_size (slab # slabs) offset =
     (let coords_num = slab_range_end slab - slab_range_start slab + 1 in
      if coords_num * coords_size_v + offset > coords_buff_size then Some ([], offset, True)
      else
        (case fill_coords_slab row E dim_num_v (slab_coords_start slab) [0 ..< unat coords_num] offset of
           None \<Rightarrow> None
         | Some (ws, offset1) \<Rightarrow>
             (case fill_coords_loop row E dim_num_v coords_size_v coords_buff_size slabs offset1 of
                None \<Rightarrow> None
              | Some (ws', offset2, overflow) \<Rightarrow> Some (ws @ ws', offset2, overflow))))"

text \<open>
  \<open>fill_coords\<close>. On overflow it sets \<open>read_state_.overflowed_\<close> only and leaves the size as it is; the slabs copied
  before stay in the buffer.
\<close>

definition fill_coords ::
  "'p Pipeline \<Rightarrow> 'p Reader \<Rightarrow> (Status \<times> 'p Reader) outcome" where
  "fill_coords E r =
     (case (map_of (attr_buffers r) constants_coords, array_schema r) of
        (Some ab, Some schema) \<Rightarrow>
          (case buffer_size ab of
             None \<Rightarrow> Aborts
           | Some coords_buff_size \<Rightarrow>
               (case dense_coords_slabs E r of
                  (st, slabs) \<Rightarrow>
                    if cancel_or_error E st r \<noteq> Ok then Returns (cancel_or_error E st r, r)
                    else
                      (case fill_coords_loop
                              (layout r = ROW_MAJOR \<or>
                               (layout r = GLOBAL_ORDER \<and> cell_order schema = ROW_MAJOR))
                              E (dim_num schema) (coords_size schema) coords_buff_size slabs 0 of
                         None \<Rightarrow> Aborts
                       | Some (ws, offset, overflow) \<Rightarrow>
                           (case buffer ab of
                              None \<Rightarrow> Aborts
                            | Some buf \<Rightarrow>
                                (case apply_writes buf ws of
                                   None \<Rightarrow> Aborts
                                 | Some buf1 \<Rightarrow>
                                     if overflow
                                     then Returns (Ok, r\<lparr>read_state_overflowed := True,
                                       attr_buffers :=
                                         AList.update constants_coords
                                           (ab\<lparr>buffer := Some buf1,
                                               written := written ab + bytes_written ws\<rparr>)
                                           (attr_buffers r)\<rparr>)
                                     else Returns (Ok, r\<lparr>attr_buffers :=
                                         AList.update constants_coords
                                           (ab\<lparr>buffer := Some buf1, buffer_size := Some offset,
                                               written := written ab + bytes_written ws\<rparr>)
                                           (attr_buffers r)\<rparr>))))))
      | _ \<Rightarrow> Aborts)"

text \<open>The loop over the attributes of \<open>dense_read\<close>: the coordinates are skipped.\<close>

fun dense_read_copy ::
  "Constants \<Rightarrow> 'p Pipeline \<Rightarrow> OverlappingCellRange list \<Rightarrow> string list \<Rightarrow> 'p Reader
     \<Rightarrow> (Status \<times> 'p Reader) outcome" where
  "dense_read_copy C E cell_ranges [] r = Returns (Ok, r)"
| "dense_read_copy C E cell_ranges (attr # attrs) r =
     (if read_state_overflowed r then Returns (Ok, r)
      else if attr = constants_coords then dense_read_copy C E cell_ranges attrs r
      else case copy_cells C attr cell_ranges r of
        Returns (st, r1) \<Rightarrow>
          if cancel_or_error E st r1 \<noteq> Ok then Returns (cancel_or_error E st r1, r1)
          else dense_read_copy C E cell_ranges attrs r1
      | Aborts \<Rightarrow> Aborts
      | NoReturn \<Rightarrow> NoReturn)"

definition dense_read_T ::
  "Constants \<Rightarrow> 'p Pipeline \<Rightarrow> 'p Reader \<Rightarrow> (Status \<times> 'p Reader) outcome" where
  "dense_read_T C E r =
     (case dense_read_cell_ranges E r of
        (st, cell_ranges) \<Rightarrow>
          if st \<noteq> Ok then Returns (st, r)
          else
            (case dense_read_copy C E cell_ranges (attributes r) r of
               Returns (st1, r1) \<Rightarrow>
                 if st1 \<noteq> Ok then Returns (st1, r1)
                 else if \<not> read_state_overflowed r1 \<and> has_coords r1
                 then (case fill_coords E r1 of
                         Returns (st2, r2) \<Rightarrow> Returns (cancel_or_error E st2 r2, r2)
                       | Aborts \<Rightarrow> Aborts
                       | NoReturn \<Rightarrow> NoReturn)
                 else Returns (Ok, r1)
             | Aborts \<Rightarrow> Aborts
             | NoReturn \<Rightarrow> NoReturn))"

text \<open>
  The dispatch of \<open>dense_read()\<close> on the coordinate type has no case for the real
  types: they reach \<open>default:\<close>.
\<close>

definition dense_read ::
  "Constants \<Rightarrow> 'p Pipeline \<Rightarrow> 'p Reader \<Rightarrow> (Status \<times> 'p Reader) outcome" where
  "dense_read C E r =
     (case array_schema r of
        None \<Rightarrow> Aborts
      | Some schema \<Rightarrow>
          if coords_type schema \<in> {INT8, UINT8, INT16, UINT16, INT32, UINT32, INT64, UINT64}
          then dense_read_T C E r
          else Returns (ReaderError ''Cannot read; Unsupported domain type'', r))"


subsection \<open>Reader::read on the legacy path\<close>

text \<open>
  The \<open>do ... while (no_results && read_state_.cur_subarray_partition_ != nullptr)\<close> loop
  of \<open>read()\<close>, with fuel; \<open>pfuel\<close> is the fuel of each call of
  \<open>next_subarray_partition\<close>.
\<close>

fun read_loop ::
  "nat \<Rightarrow> nat \<Rightarrow> Constants \<Rightarrow> 'p Pipeline \<Rightarrow> 'p Reader \<Rightarrow> (Status \<times> 'p Reader) outcome" where
  "read_loop 0 pfuel C E r = NoReturn"
| "read_loop (Suc fuel) pfuel C E r =
     (let r1 = reset_buffer_sizes (r\<lparr>read_state_overflowed := False\<rparr>) in
      case array_schema r1 of
        None \<Rightarrow> Aborts
      | Some schema \<Rightarrow>
          (case (if dense schema \<and> \<not> sparse_mode r1 then dense_read C E r1 else sparse_read C E r1) of
             Aborts \<Rightarrow> Aborts
           | NoReturn \<Rightarrow> NoReturn
           | Returns (st, r2) \<Rightarrow>
               if st \<noteq> Ok then Returns (st, r2)
               else
                 let r3 = (if read_state_overflowed r2 then zero_out_buffer_sizes r2 else r2) in
                 (case next_subarray_partition pfuel r3 of
                    Aborts \<Rightarrow> Aborts
                  | NoReturn \<Rightarrow> NoReturn
                  | Returns (st4, r4) \<Rightarrow>
                      if st4 \<noteq> Ok then Returns (st4, r4)
                      else if read_state_unsplittable r4 \<and> read_state_overflowed r4
                      then Returns (Ok, zero_out_buffer_sizes r4)
                      else if no_results r4 \<and> read_state_cur_subarray_partition r4 \<noteq> None
                      then read_loop fuel pfuel C E r4
                      else Returns (Ok, r4))))"

subsection \<open>Reader::read_2\<close>

text \<open>
  \<open>dense_read_2<T>\<close>: the specialisations for \<open>float\<close> and \<open>double\<close> are
  \<open>assert(false); return Status::Ok();\<close>. \<open>NDEBUG\<close> says whether assertions are
  compiled out. For the integer types the body is that of \<open>dense_read<T>\<close>.
\<close>

definition dense_read_2 ::
  "bool \<Rightarrow> Constants \<Rightarrow> 'p Pipeline \<Rightarrow> 'p Reader \<Rightarrow> (Status \<times> 'p Reader) outcome" where
  "dense_read_2 NDEBUG C E r =
     (case array_schema r of
        None \<Rightarrow> Aborts
      | Some schema \<Rightarrow>
          if coords_type schema \<in> {FLOAT32, FLOAT64}
          then (if NDEBUG then Returns (Ok, r) else Aborts)
          else dense_read_T C E r)"

text \<open>
  \<open>sparse_read_2<T>\<close>: the coordinates are copied first; then every other attribute has
  its tiles read and filtered (a collaborator that returns the cell ranges with the
  attribute's tiles) and is copied.
\<close>

fun sparse_read_2_copy ::
  "Constants \<Rightarrow> 'p Pipeline \<Rightarrow> OverlappingCellRange list \<Rightarrow> string list \<Rightarrow> 'p Reader
     \<Rightarrow> (Status \<times> 'p Reader) outcome" where
  "sparse_read_2_copy C E cell_ranges [] r = Returns (Ok, r)"
| "sparse_read_2_copy C E cell_ranges (attr # attrs) r =
     (if read_state_2_overflowed r then Returns (Ok, r)
      else if attr = constants_coords then sparse_read_2_copy C E cell_ranges attrs r
      else case read_and_filter_tiles_2 E r attr cell_ranges of
        (st0, attr_ranges) \<Rightarrow>
          if cancel_or_error E st0 r \<noteq> Ok then Returns (cancel_or_error E st0 r, r)
          else case copy_cells C attr attr_ranges r of
            Returns (st, r1) \<Rightarrow>
              if cancel_or_error E st r1 \<noteq> Ok then Returns (cancel_or_error E st r1, r1)
              else sparse_read_2_copy C E cell_ranges attrs r1
          | Aborts \<Rightarrow> Aborts
          | NoReturn \<Rightarrow> NoReturn)"

definition sparse_read_2 ::
  "Constants \<Rightarrow> 'p Pipeline \<Rightarrow> 'p Reader \<Rightarrow> (Status \<times> 'p Reader) outcome" where
  "sparse_read_2 C E r =
     (case sparse_read_2_cell_ranges E r of
        (st, cell_ranges) \<Rightarrow>
          if st \<noteq> Ok then Returns (st, r)
          else
            (case (if constants_coords \<in> set (attributes r)
                   then (case copy_cells C constants_coords cell_ranges r of
                           Returns (st1, r1) \<Rightarrow> Returns (cancel_or_error E st1 r1, r1)
                         | Aborts \<Rightarrow> Aborts
                         | NoReturn \<Rightarrow> NoReturn)
                   else Returns (Ok, r)) of
               Returns (st1, r1) \<Rightarrow>
                 if st1 \<noteq> Ok then Returns (st1, r1)
                 else sparse_read_2_copy C E cell_ranges (attributes r1) r1
             | Aborts \<Rightarrow> Aborts
             | NoReturn \<Rightarrow> NoReturn))"

text \<open>
  Modelled from the spec: \<open>ReadState2::next\<close> and \<open>ReadState2::split_current\<close> (reader.h
  is not among the sources) step the partitioner and store its unsplittable flag.
\<close>

definition read_state_2_next :: "'p SubarrayPartitioner \<Rightarrow> 'p Reader \<Rightarrow> Status \<times> 'p Reader" where
  "read_state_2_next P r =
     (case partitioner_next P (read_state_2_partitioner r) of
        (st, unsplittable, p) \<Rightarrow>
          (st, r\<lparr>read_state_2_partitioner := p, read_state_2_unsplittable := unsplittable\<rparr>))"

definition read_state_2_split_current :: "'p SubarrayPartitioner \<Rightarrow> 'p Reader \<Rightarrow> Status \<times> 'p Reader" where
  "read_state_2_split_current P r =
     (case partitioner_split_current P (read_state_2_partitioner r) of
        (st, unsplittable, p) \<Rightarrow>
          (st, r\<lparr>read_state_2_partitioner := p, read_state_2_unsplittable := unsplittable\<rparr>))"

text \<open>
  The \<open>do ... while (true)\<close> loop of \<open>read_2<T>\<close>, with fuel. The statuses of
  \<open>dense_read_2<T>()\<close> and \<open>sparse_read_2<T>()\<close> are dropped by the source.
\<close>

fun read_2_loop ::
  "nat \<Rightarrow> bool \<Rightarrow> Constants \<Rightarrow> 'p Pipeline \<Rightarrow> 'p SubarrayPartitioner \<Rightarrow> 'p Reader
     \<Rightarrow> (Status \<times> 'p Reader) outcome" where
  "read_2_loop 0 NDEBUG C E P r = NoReturn"
| "read_2_loop (Suc fuel) NDEBUG C E P r =
     (let r1 = reset_buffer_sizes (r\<lparr>read_state_2_overflowed := False\<rparr>) in
      case array_schema r1 of
        None \<Rightarrow> Aborts
      | Some schema \<Rightarrow>
          (case (if dense schema then dense_read_2 NDEBUG C E r1 else sparse_read_2 C E r1) of
             Aborts \<Rightarrow> Aborts
           | NoReturn \<Rightarrow> NoReturn
           | Returns (dropped, r2) \<Rightarrow>
               if read_state_2_overflowed r2
               then
                 (case read_state_2_split_current P (zero_out_buffer_sizes r2) of
                    (st, r3) \<Rightarrow>
                      if st \<noteq> Ok then Returns (st, r3)
                      else if read_state_2_unsplittable r3 then Returns (Ok, r3)
                      else read_2_loop fuel NDEBUG C E P r3)
               else if \<not> no_results r2 \<or> partitioner_done P (read_state_2_partitioner r2)
               then Returns (Ok, r2)
               else
                 (case read_state_2_next P r2 of
                    (st, r3) \<Rightarrow>
                      if st \<noteq> Ok then Returns (st, r3)
                      else read_2_loop fuel NDEBUG C E P r3)))"

definition read_2_T ::
  "nat \<Rightarrow> bool \<Rightarrow> Constants \<Rightarrow> 'p Pipeline \<Rightarrow> 'p SubarrayPartitioner \<Rightarrow> 'p Reader
     \<Rightarrow> (Status \<times> 'p Reader) outcome" where
  "read_2_T fuel NDEBUG C E P r =
     (case (if \<not> read_state_2_unsplittable r then read_state_2_next P r else (Ok, r)) of
        (st, r1) \<Rightarrow>
          if st \<noteq> Ok then Returns (st, r1)
          else if fragment_metadata r1 = [] then Returns (Ok, zero_out_buffer_sizes r1)
          else read_2_loop fuel NDEBUG C E P r1)"

definition read_2 ::
  "nat \<Rightarrow> bool \<Rightarrow> Constants \<Rightarrow> 'p Pipeline \<Rightarrow> 'p SubarrayPartitioner \<Rightarrow> 'p Reader
     \<Rightarrow> (Status \<times> 'p Reader) outcome" where
  "read_2 fuel NDEBUG C E P r =
     (case array_schema r of
        None \<Rightarrow> Aborts
      | Some schema \<Rightarrow>
          if coords_type schema \<in> {INT8, UINT8, INT16, UINT16, INT32, UINT32, INT64, UINT64,
                                   FLOAT32, FLOAT64}
          then read_2_T fuel NDEBUG C E P r
          else Returns (ReaderError ''Cannot read; Unsupported domain type'', r))"

subsection \<open>Reader::read\<close>

definition read ::
  "nat \<Rightarrow> nat \<Rightarrow> bool \<Rightarrow> Constants \<Rightarrow> 'p Pipeline \<Rightarrow> 'p SubarrayPartitioner \<Rightarrow> 'p Reader
     \<Rightarrow> (Status \<times> 'p Reader) outcome" where
  "read fuel pfuel NDEBUG C E P r =
     (if read_state_2_set r then read_2 fuel NDEBUG C E P r
      else if fragment_metadata r = [] \<or> read_state_cur_subarray_partition r = None
      then Returns (Ok, zero_out_buffer_sizes r)
      else read_loop fuel pfuel C E r)"


subsection \<open>Reader::compute_dense_cell_ranges\<close>

text \<open>
  \<open>DenseCellRange<T>\<close>: fragment index (\<open>-1\<close> for an empty range), tile coordinates,
  start and end position, and the optional start and end coordinates (null when the
  layout is the cell order).
\<close>

record DenseCellRange =
  dcr_fragment_idx :: int
  dcr_tile_coords :: "int list"
  dcr_start :: uint64_t
  dcr_end :: uint64_t
  dcr_coords_start :: "int list option"
  dcr_coords_end :: "int list option"

text \<open>
  A \<open>DenseCellRangeIter<T>\<close> is the list of the ranges it has yet to yield: \<open>end()\<close> is
  the empty list, \<open>range_start()\<close> and the other accessors read the head, \<open>++\<close> drops it.
\<close>

record DenseRange =
  range_start :: uint64_t
  range_end :: uint64_t
  range_coords_start :: "int list"
  range_coords_end :: "int list"

type_synonym DenseCellRangeIter = "DenseRange list"

datatype PosType = RANGE_START | RANGE_END

text \<open>
  \<open>DenseCellRangeCmp<T>\<close> (comparators.h is not among the sources) is a parameter of the
  algorithm: the ordering of the priority queue and the two position tests.
\<close>

record DenseCellRangeCmp =
  cmp_less :: "DenseCellRange \<Rightarrow> DenseCellRange \<Rightarrow> bool"
  cmp_precedes :: "DenseCellRange \<Rightarrow> uint64_t \<Rightarrow> PosType \<Rightarrow> bool"
  cmp_succeeds :: "DenseCellRange \<Rightarrow> uint64_t \<Rightarrow> PosType \<Rightarrow> bool"

text \<open>
  Modelled from the spec: the comparator when the layout is the cell order. Section 4.7:
  a min-heap keyed by (range-start, fragment-tie-breaker) where the tie-breaker prefers the
  higher fragment index; a popped range is skipped if it ends before \<open>start\<close>, and the
  search stops if it starts after \<open>end\<close>. \<open>cmp_less a b\<close> is the comparator's
  \<open>operator()\<close>: \<open>b\<close> comes out of the queue before \<open>a\<close>.
\<close>

definition dense_cell_range_cmp :: DenseCellRangeCmp where
  "dense_cell_range_cmp =
     \<lparr> cmp_less = (\<lambda>a b. dcr_start a > dcr_start b \<or>
                         (dcr_start a = dcr_start b \<and> dcr_fragment_idx a < dcr_fragment_idx b)),
       cmp_precedes = (\<lambda>a pos pos_type.
          if pos_type = RANGE_START then dcr_start a < pos else dcr_end a < pos),
       cmp_succeeds = (\<lambda>a pos pos_type.
          if pos_type = RANGE_START then dcr_start a > pos else dcr_end a > pos) \<rparr>"

text \<open>
  The \<open>std::priority_queue\<close> is the list of its elements; \<open>top\<close> is a greatest element
  of the comparator and \<open>pop\<close> removes it.
\<close>

definition pq_top :: "DenseCellRangeCmp \<Rightarrow> DenseCellRange list \<Rightarrow> DenseCellRange" where
  "pq_top cmp pq = foldl (\<lambda>best x. if cmp_less cmp best x then x else best) (hd pq) (tl pq)"

definition pq_pop :: "DenseCellRangeCmp \<Rightarrow> DenseCellRange list \<Rightarrow> DenseCellRange list" where
  "pq_pop cmp pq = remove1 (pq_top cmp pq) pq"

text \<open>
  \<open>pq.emplace(i, tile_coords, frag_its[i].range_start(), ...)\<close> when \<open>frag_its[i]\<close> is not
  at its end.
\<close>

definition pq_emplace_from ::
  "bool \<Rightarrow> int list \<Rightarrow> DenseCellRangeIter list \<Rightarrow> nat \<Rightarrow> DenseCellRange list \<Rightarrow> DenseCellRange list" where
  "pq_emplace_from same_layout tile_coords frag_its i pq =
     (case frag_its ! i of
        [] \<Rightarrow> pq
      | rg # rest \<Rightarrow>
          \<lparr> dcr_fragment_idx = int i, dcr_tile_coords = tile_coords,
            dcr_start = range_start rg, dcr_end = range_end rg,
            dcr_coords_start = (if same_layout then None else Some (range_coords_start rg)),
            dcr_coords_end = (if same_layout then None else Some (range_coords_end rg)) \<rparr> # pq)"

definition empty_dense_cell_range :: "int \<Rightarrow> int list \<Rightarrow> uint64_t \<Rightarrow> uint64_t \<Rightarrow> DenseCellRange" where
  "empty_dense_cell_range fidx tile_coords start_v end_v =
     \<lparr> dcr_fragment_idx = fidx, dcr_tile_coords = tile_coords, dcr_start = start_v, dcr_end = end_v,
       dcr_coords_start = None, dcr_coords_end = None \<rparr>"

text \<open>
  The inner loop that ignores ranges of older fragments contained in the popped range.
  The iterators of the ignored ranges are not advanced.
\<close>

function ignore_contained ::
  "DenseCellRangeCmp \<Rightarrow> DenseCellRange \<Rightarrow> DenseCellRange list \<Rightarrow> DenseCellRange list" where
  "ignore_contained cmp popped pq =
     (if pq = [] then []
      else if dcr_fragment_idx popped > dcr_fragment_idx (pq_top cmp pq) \<and>
              dcr_start popped \<le> dcr_start (pq_top cmp pq) \<and>
              dcr_end popped \<ge> dcr_end (pq_top cmp pq)
      then ignore_contained cmp popped (pq_pop cmp pq)
      else pq)"
  by pat_completeness auto
termination
proof (relation "measure (\<lambda>(cmp, popped, pq). length pq)")
  show "wf (measure (\<lambda>(cmp, popped, pq). length pq))" by simp
next
  fix cmp :: DenseCellRangeCmp and popped :: DenseCellRange and pq :: "DenseCellRange list"
  assume nonempty: "pq \<noteq> []"
  have "foldl (\<lambda>best x. if f best x then x else best) b xs \<in> set (b # xs)"
    for f :: "DenseCellRange \<Rightarrow> DenseCellRange \<Rightarrow> bool" and b xs
    by (induction xs arbitrary: b) auto
  from this [of "cmp_less cmp" "hd pq" "tl pq"] nonempty
  have "pq_top cmp pq \<in> set pq" by (simp add: pq_top_def)
  then have "length (remove1 (pq_top cmp pq) pq) < length pq"
    using length_pos_if_in_set [of "pq_top cmp pq" pq] by (simp add: length_remove1)
  then show "((cmp, popped, pq_pop cmp pq), (cmp, popped, pq))
               \<in> measure (\<lambda>(cmp, popped, pq). length pq)"
    by (simp add: pq_pop_def)
qed

text \<open>
  One iteration of the main loop \<open>while (!pq.empty())\<close>, entered with a non-empty queue:
  it ends in \<open>continue\<close> (or the end of the body), in \<open>break\<close>, or in the \<open>return\<close> of
  the function.
\<close>

datatype dense_loop_step =
    Continue "DenseCellRange list" "DenseCellRangeIter list" uint64_t "DenseCellRange list"
  | Break "DenseCellRangeIter list" uint64_t "DenseCellRange list"
  | Return "DenseCellRangeIter list" uint64_t "DenseCellRange list"

definition dense_cell_ranges_step ::
  "DenseCellRangeCmp \<Rightarrow> bool \<Rightarrow> int list \<Rightarrow> uint64_t \<Rightarrow> DenseCellRange list
     \<Rightarrow> DenseCellRangeIter list \<Rightarrow> uint64_t \<Rightarrow> DenseCellRange list \<Rightarrow> dense_loop_step" where
  "dense_cell_ranges_step cmp same_layout tile_coords end_v pq frag_its start_v out =
     (let popped = pq_top cmp pq;
          fidx = nat (dcr_fragment_idx popped);
          pq1 = pq_pop cmp pq
      in
      if cmp_precedes cmp popped start_v RANGE_END
      then
        (let frag_its1 = frag_its[fidx := tl (frag_its ! fidx)] in
         Continue (pq_emplace_from same_layout tile_coords frag_its1 fidx pq1) frag_its1 start_v out)
      else if cmp_succeeds cmp popped end_v RANGE_START
      then Return frag_its start_v (out @ [empty_dense_cell_range (- 1) tile_coords start_v end_v])
      else
        let pad = dcr_start popped > start_v;
            pad_end = min end_v (dcr_start popped - 1);
            out1 = (if pad then out @ [empty_dense_cell_range (- 1) tile_coords start_v pad_end]
                    else out);
            start1 = (if pad then pad_end + 1 else start_v)
        in
        if pad \<and> start1 > end_v then Break frag_its start1 out1
        else
          let pq2 = ignore_contained cmp popped pq1 in
          if pq2 \<noteq> [] \<and> dcr_start (pq_top cmp pq2) \<le> end_v \<and>
             dcr_start (pq_top cmp pq2) > dcr_start popped \<and>
             dcr_start (pq_top cmp pq2) \<le> dcr_end popped
          then
            (let top = pq_top cmp pq2;
                 new_end = dcr_start top - 1;
                 out2 = out1 @ [empty_dense_cell_range (dcr_fragment_idx popped) tile_coords start1 new_end];
                 start2 = new_end + 1
             in
             if start2 > end_v then Break frag_its start2 out2
             else Continue (popped\<lparr>dcr_start := dcr_start top\<rparr> # pq2) frag_its start2 out2)
          else
            (let new_end = min end_v (dcr_end popped);
                 out2 = out1 @ [empty_dense_cell_range (dcr_fragment_idx popped) tile_coords start1 new_end];
                 start2 = new_end + 1;
                 frag_its1 = (if new_end = dcr_end popped
                              then frag_its[fidx := tl (frag_its ! fidx)] else frag_its);
                 pq3 = (if new_end = dcr_end popped
                        then pq_emplace_from same_layout tile_coords frag_its1 fidx pq2 else pq2)
             in
             if start2 > end_v then Break frag_its1 start2 out2
             else Continue pq3 frag_its1 start2 out2))"

text \<open>
  The main loop, with fuel. \<open>Inl\<close> is the early \<open>return\<close> of the function from inside
  the loop, \<open>Inr\<close> the exit of the loop (by its condition or by \<open>break\<close>); both carry the
  iterators, \<open>start\<close> and the list of emitted ranges.
\<close>

fun dense_cell_ranges_loop ::
  "nat \<Rightarrow> DenseCellRangeCmp \<Rightarrow> bool \<Rightarrow> int list \<Rightarrow> uint64_t \<Rightarrow> DenseCellRange list
     \<Rightarrow> DenseCellRangeIter list \<Rightarrow> uint64_t \<Rightarrow> DenseCellRange list
     \<Rightarrow> (DenseCellRangeIter list \<times> uint64_t \<times> DenseCellRange list
          + DenseCellRangeIter list \<times> uint64_t \<times> DenseCellRange list) outcome" where
  "dense_cell_ranges_loop 0 cmp same_layout tile_coords end_v pq frag_its start_v out = NoReturn"
| "dense_cell_ranges_loop (Suc fuel) cmp same_layout tile_coords end_v pq frag_its start_v out =
     (if pq = [] then Returns (Inr (frag_its, start_v, out))
      else
        (case dense_cell_ranges_step cmp same_layout tile_coords end_v pq frag_its start_v out of
           Continue pq1 frag_its1 start1 out1 \<Rightarrow>
             dense_cell_ranges_loop fuel cmp same_layout tile_coords end_v pq1 frag_its1 start1 out1
         | Break frag_its1 start1 out1 \<Rightarrow> Returns (Inr (frag_its1, start1, out1))
         | Return frag_its1 start1 out1 \<Rightarrow> Returns (Inl (frag_its1, start1, out1))))"

text \<open>
  \<open>compute_dense_cell_ranges\<close>: the queue is populated from the iterators of the
  \<open>fragment_num\<close> fragments, the loop runs, and an empty range fills what is left of the
  window. The result is the status, the advanced iterators and \<open>dense_cell_ranges\<close> with
  the emitted ranges appended.
\<close>

definition compute_dense_cell_ranges ::
  "nat \<Rightarrow> DenseCellRangeCmp \<Rightarrow> 'p Reader \<Rightarrow> int list \<Rightarrow> DenseCellRangeIter list \<Rightarrow> uint64_t
     \<Rightarrow> uint64_t \<Rightarrow> DenseCellRange list
     \<Rightarrow> (Status \<times> DenseCellRangeIter list \<times> DenseCellRange list) outcome" where
  "compute_dense_cell_ranges fuel cmp r tile_coords frag_its start_v end_v dense_cell_ranges =
     (case array_schema r of
        None \<Rightarrow> Aborts
      | Some schema \<Rightarrow>
          let fragment_num = length (fragment_metadata r);
              layout_v = (if layout r = GLOBAL_ORDER then cell_order schema else layout r);
              same_layout = (layout_v = cell_order schema)
          in
          if length frag_its < fragment_num then Aborts
          else
            let pq = foldl (\<lambda>pq i. pq_emplace_from same_layout tile_coords frag_its i pq) []
                       [0 ..< fragment_num]
            in
            (case dense_cell_ranges_loop fuel cmp same_layout tile_coords end_v pq frag_its start_v
                    dense_cell_ranges of
               Aborts \<Rightarrow> Aborts
             | NoReturn \<Rightarrow> NoReturn
             | Returns (Inl (its, start1, out)) \<Rightarrow> Returns (Ok, its, out)
             | Returns (Inr (its, start1, out)) \<Rightarrow>
                 Returns (Ok, its,
                   if start1 \<le> end_v
                   then out @ [empty_dense_cell_range (- 1) tile_coords start1 end_v]
                   else out)))"


subsection \<open>The specified result of compute_dense_cell_ranges\<close>

text \<open>
  The specification of the emitted ranges, in its own words: they are consecutive, disjoint
  and cover the window \<open>[s, e]\<close> exactly.
\<close>

fun spec_consecutive_cover :: "uint64_t \<Rightarrow> uint64_t \<Rightarrow> DenseCellRange list \<Rightarrow> bool" where
  "spec_consecutive_cover s e [] = False"
| "spec_consecutive_cover s e [c] = (dcr_start c = s \<and> s \<le> dcr_end c \<and> dcr_end c = e)"
| "spec_consecutive_cover s e (c # d # cs) =
     (dcr_start c = s \<and> s \<le> dcr_end c \<and> dcr_end c < e \<and>
      spec_consecutive_cover (dcr_end c + 1) e (d # cs))"

text \<open>
  The newest (highest-indexed) fragment with a range that contains the position, \<open>-1\<close>
  when no fragment has one.
\<close>

definition spec_newest_fragment :: "DenseCellRangeIter list \<Rightarrow> uint64_t \<Rightarrow> int" where
  "spec_newest_fragment frag_its pos =
     foldl (\<lambda>best i. if list_ex (\<lambda>rg. range_start rg \<le> pos \<and> pos \<le> range_end rg) (frag_its ! i)
                      then int i else best)
       (- 1) [0 ..< length frag_its]"

text \<open>Every position of an emitted range is annotated with its newest fragment.\<close>

definition spec_annotated_newest :: "DenseCellRangeIter list \<Rightarrow> DenseCellRange \<Rightarrow> bool" where
  "spec_annotated_newest frag_its c =
     list_all (\<lambda>pos. dcr_fragment_idx c = spec_newest_fragment frag_its (word_of_nat pos))
       [unat (dcr_start c) ..< Suc (unat (dcr_end c))]"

subsection \<open>Reader::incomplete\<close>

definition incomplete :: "'p SubarrayPartitioner \<Rightarrow> 'p Reader \<Rightarrow> bool" where
  "incomplete P r =
     (if read_state_2_set r
      then read_state_2_overflowed r \<or> \<not> partitioner_done P (read_state_2_partitioner r)
      else read_state_overflowed r \<or> read_state_cur_subarray_partition r \<noteq> None)"


subsection \<open>Example objects\<close>

text \<open>
  A one-dimensional sparse array with a fixed-sized attribute \<open>a\<close> (4 bytes) and a
  var-sized attribute \<open>v\<close>, one sparse fragment, and a storage manager that estimates
  4 bytes per attribute for every partition. The examples instantiate the theorems below.
\<close>

definition ex_schema :: ArraySchema where
  "ex_schema =
     \<lparr> dense = False, dim_num = 1, coords_type = INT32, is_kv = False, cell_order = ROW_MAJOR,
       coords_size = 4, attribute = (\<lambda>a. a = ''a'' \<or> a = ''v''), var_size = (\<lambda>a. a = ''v''),
       cell_size = (\<lambda>a. 4), attr_type = (\<lambda>a. INT32), schema_domain = [0, 9],
       split_subarray = (\<lambda>s l. (Ok, None, None)) \<rparr>"

definition ex_storage_manager :: StorageManager where
  "ex_storage_manager =
     \<lparr> config_get = (\<lambda>k. (Ok, ''5368709120'')),
       utils_parse_convert = (\<lambda>v. (Ok, 5368709120)),
       array_compute_est_read_buffer_sizes = (\<lambda>fm s. (Ok, \<lambda>a. (4, 0))) \<rparr>"

definition ex_partitioner :: "unit SubarrayPartitioner" where
  "ex_partitioner =
     \<lparr> partitioner_done = (\<lambda>p. True),
       partitioner_next = (\<lambda>p. (Ok, False, p)),
       partitioner_split_current = (\<lambda>p. (Ok, True, p)),
       partitioner_set_result_budget = (\<lambda>a n m p. (Ok, p)),
       partitioner_set_memory_budget = (\<lambda>n m p. (Ok, p)) \<rparr>"

text \<open>
  The reader after \<open>set_array_schema\<close>, \<open>set_storage_manager\<close>,
  \<open>set_fragment_metadata\<close> and one \<open>set_buffer\<close> for \<open>a\<close> with a 4-byte buffer.
\<close>

definition ex_reader :: "unit Reader" where
  "ex_reader =
     snd (set_buffer ex_partitioner ''a'' (Some [0, 0, 0, 0]) (Some 4)
            (set_fragment_metadata [\<lparr>frag_dense = False\<rparr>]
               (set_storage_manager ex_storage_manager
                  (set_array_schema ex_schema (Reader_ctor ())))))"






definition ex_constants :: Constants where
  "ex_constants =
     \<lparr> datatype_size = (\<lambda>t. 4), fill_value = (\<lambda>t. [0, 0, 0, 128]),
       fill_value_pointer = (\<lambda>t. [0x40, 0x10, 0x60, 0, 0, 0, 0, 0]) \<rparr>"

definition ex_empty_range :: "OverlappingCellRange list" where
  "ex_empty_range = [\<lparr> cr_tile = None, cr_start = 0, cr_end = 1 \<rparr>]"

text \<open>
  The example reader with buffers large enough for two cells: 8 bytes for \<open>a\<close>, and for
  \<open>v\<close> 16 bytes of offsets and 8 bytes of values.
\<close>

definition ex_reader_big :: "unit Reader" where
  "ex_reader_big =
     snd (set_buffer_var ex_partitioner ''v''
            (Some [1, 1, 1, 1, 1, 1, 1, 1, 1, 1, 1, 1, 1, 1, 1, 1]) (Some 16)
            (Some [2, 2, 2, 2, 2, 2, 2, 2]) (Some 8)
            (snd (set_buffer ex_partitioner ''a'' (Some [3, 3, 3, 3, 3, 3, 3, 3]) (Some 8) ex_reader)))"







text \<open>
  A dense array with three fragments, each with one range inside the window \<open>[0, 9]\<close>:
  fragment 0 has \<open>[3, 9]\<close>, fragment 1 has \<open>[4, 4]\<close>, fragment 2 has \<open>[0, 5]\<close>.
\<close>

definition ex_dense_reader :: "unit Reader" where
  "ex_dense_reader =
     set_fragment_metadata
       [\<lparr>frag_dense = True\<rparr>, \<lparr>frag_dense = True\<rparr>, \<lparr>frag_dense = True\<rparr>]
       (set_array_schema (ex_schema\<lparr>dense := True\<rparr>) (Reader_ctor ()))"

definition dense_range :: "uint64_t \<Rightarrow> uint64_t \<Rightarrow> DenseRange" where
  "dense_range s e =
     \<lparr> range_start = s, range_end = e, range_coords_start = [], range_coords_end = [] \<rparr>"

definition ex_frag_its :: "DenseCellRangeIter list" where
  "ex_frag_its = [[dense_range 3 9], [dense_range 4 4], [dense_range 0 5]]"

section \<open>Theorems\<close>

text \<open>
  C7. \<open>incomplete()\<close> is true if and only if the overflow flag of the active read state is
  set or partitions remain: on the legacy path the current subarray partition is not
  null, on the new path the partitioner is not done.
\<close>

theorem incomplete_iff:
  "incomplete P r \<longleftrightarrow>
     (read_state_2_set r \<and> (read_state_2_overflowed r \<or> \<not> partitioner_done P (read_state_2_partitioner r)))
   \<or> (\<not> read_state_2_set r \<and>
        (read_state_overflowed r \<or> read_state_cur_subarray_partition r \<noteq> None))"
  by (simp add: incomplete_def)

subsection \<open>The layout of one-dimensional legacy reads\<close>









subsection \<open>set_buffer after initialization\<close>







subsection \<open>The partition loop of next_subarray_partition\<close>










subsection \<open>Overflow detection in the copiers\<close>












subsection \<open>Fill values of var-sized empty cells\<close>

lemma ex_reader_big_eq:
  "ex_reader_big =
     \<lparr> array_schema = Some ex_schema, storage_manager = Some ex_storage_manager,
       layout = ROW_MAJOR, attributes = [''a'', ''v''],
       attr_buffers =
         [(''a'', AttributeBuffer_ctor (Some [3, 3, 3, 3, 3, 3, 3, 3]) None (Some 8) None),
          (''v'', AttributeBuffer_ctor (Some [1, 1, 1, 1, 1, 1, 1, 1, 1, 1, 1, 1, 1, 1, 1, 1])
                    (Some [2, 2, 2, 2, 2, 2, 2, 2]) (Some 16) (Some 8))],
       fragment_metadata = [\<lparr>frag_dense = False\<rparr>], sparse_mode = False,
       memory_budget = 0, memory_budget_var = 0,
       read_state_cur_subarray_partition = None, read_state_subarray = None,
       read_state_subarray_partitions = [], read_state_initialized = False,
       read_state_overflowed = False, read_state_unsplittable = False,
       read_state_2_set = False, read_state_2_overflowed = False,
       read_state_2_unsplittable = False, read_state_2_partitioner = () \<rparr>"
  by (simp add: ex_reader_big_def ex_reader_def set_buffer_def set_buffer_var_def
        set_fragment_metadata_def set_storage_manager_def set_array_schema_def Reader_ctor_def
        ex_schema_def constants_coords_def)


lemma bytes_of_uint64_0: "bytes_of_uint64 0 = [0, 0, 0, 0, 0, 0, 0, 0]"
  by (simp add: bytes_of_uint64_def upt_rec)

lemma bytes_of_uint64_4: "bytes_of_uint64 4 = [4, 0, 0, 0, 0, 0, 0, 0]"
  by (simp add: bytes_of_uint64_def upt_rec drop_bit_eq_div)


lemma var_cell_writes_empty_range:
  "unat fill_size \<le> length fill_value_ptr \<Longrightarrow>
     var_cell_writes fill_size fill_value_ptr None (cell_idx, offset_dest, var_offset) =
       Some ((unat offset_dest, bytes_of_uint64 var_offset),
             (unat var_offset, take (unat fill_size) fill_value_ptr))"
  by (simp add: var_cell_writes_def mem_read_def cell_var_offset_size_def bytes_of_uint64_def)

text \<open>
  C5 fails on the code. For the empty range of two cells of the var-sized attribute
  \<open>v\<close> the copier returns \<open>Ok\<close> with the right sizes (16 bytes of offsets, 8 bytes of
  values: one value of \<open>datatype_size\<close> bytes per cell), but the bytes in the values
  buffer are those of the pointer (\<open>40 10 60 00\<close>), not the fill value \<open>00 00 00 80\<close>.
  The fixed-sized copier, on the same range, writes the fill value.
\<close>

theorem copy_var_cells_empty_range_copies_pointer_bytes:
  "copy_var_cells ex_constants ''v'' ex_empty_range ex_reader_big =
     Returns (Ok, ex_reader_big\<lparr>attr_buffers :=
       [(''a'', AttributeBuffer_ctor (Some [3, 3, 3, 3, 3, 3, 3, 3]) None (Some 8) None),
        (''v'', \<lparr> buffer = Some [0, 0, 0, 0, 0, 0, 0, 0, 4, 0, 0, 0, 0, 0, 0, 0],
                  buffer_var = Some [0x40, 0x10, 0x60, 0, 0x40, 0x10, 0x60, 0],
                  buffer_size = Some 16, buffer_var_size = Some 8,
                  original_buffer_size = 16, original_buffer_var_size = 8,
                  written = 16, written_var = 8 \<rparr>)]\<rparr>) \<and>
   fill_value ex_constants (attr_type ex_schema ''v'') = [0, 0, 0, 128] \<and>
   datatype_size ex_constants (attr_type ex_schema ''v'') = 4 \<and>
   copy_fixed_cells ex_constants ''a'' ex_empty_range ex_reader_big =
     Returns (Ok, ex_reader_big\<lparr>attr_buffers :=
       [(''a'', \<lparr> buffer = Some [0, 0, 0, 128, 0, 0, 0, 128], buffer_var = None,
                  buffer_size = Some 8, buffer_var_size = None,
                  original_buffer_size = 8, original_buffer_var_size = 0,
                  written = 8, written_var = 0 \<rparr>),
        (''v'', AttributeBuffer_ctor (Some [1, 1, 1, 1, 1, 1, 1, 1, 1, 1, 1, 1, 1, 1, 1, 1])
                    (Some [2, 2, 2, 2, 2, 2, 2, 2]) (Some 16) (Some 8))]\<rparr>)"
proof -
  have dest: "compute_var_cell_destinations ex_constants ex_schema ''v'' ex_empty_range
     = Returns ([[0, 8]], [[0, 4]], 16, 8)"
    by (simp add: compute_var_cell_destinations_def ex_empty_range_def tile_info_def
          cell_indices_def cell_var_size_def cell_var_offset_size_def ex_constants_def upt_rec)
  have writes: "var_writes 4 [0x40, 0x10, 0x60, 0, 0, 0, 0, 0] ''v'' ex_empty_range [[0, 8]] [[0, 4]]
     = Returns ([(0, [0, 0, 0, 0, 0, 0, 0, 0]), (8, [4, 0, 0, 0, 0, 0, 0, 0])],
                [(0, [0x40, 0x10, 0x60, 0]), (4, [0x40, 0x10, 0x60, 0])])"
    by (simp add: ex_empty_range_def tile_info_def cell_indices_def upt_rec
          var_cell_writes_empty_range bytes_of_uint64_0 bytes_of_uint64_4)
  have var: "copy_var_cells ex_constants ''v'' ex_empty_range ex_reader_big =
     Returns (Ok, ex_reader_big\<lparr>attr_buffers :=
       [(''a'', AttributeBuffer_ctor (Some [3, 3, 3, 3, 3, 3, 3, 3]) None (Some 8) None),
        (''v'', \<lparr> buffer = Some [0, 0, 0, 0, 0, 0, 0, 0, 4, 0, 0, 0, 0, 0, 0, 0],
                  buffer_var = Some [0x40, 0x10, 0x60, 0, 0x40, 0x10, 0x60, 0],
                  buffer_size = Some 16, buffer_var_size = Some 8,
                  original_buffer_size = 16, original_buffer_var_size = 8,
                  written = 16, written_var = 8 \<rparr>)]\<rparr>)"
    unfolding copy_var_cells_def
    apply (simp add: dest ex_reader_big_eq AttributeBuffer_ctor_def)
    apply (simp add: ex_constants_def ex_schema_def writes memcpy_def)
    apply (simp add: ex_reader_big_eq AttributeBuffer_ctor_def ex_schema_def bytes_written_def)
    done
  have fixed: "copy_fixed_cells ex_constants ''a'' ex_empty_range ex_reader_big =
     Returns (Ok, ex_reader_big\<lparr>attr_buffers :=
       [(''a'', \<lparr> buffer = Some [0, 0, 0, 128, 0, 0, 0, 128], buffer_var = None,
                  buffer_size = Some 8, buffer_var_size = None,
                  original_buffer_size = 8, original_buffer_var_size = 0,
                  written = 8, written_var = 0 \<rparr>),
        (''v'', AttributeBuffer_ctor (Some [1, 1, 1, 1, 1, 1, 1, 1, 1, 1, 1, 1, 1, 1, 1, 1])
                    (Some [2, 2, 2, 2, 2, 2, 2, 2]) (Some 16) (Some 8))]\<rparr>)"
    by (simp add: copy_fixed_cells_def ex_reader_big_eq AttributeBuffer_ctor_def ex_constants_def
          ex_schema_def ex_empty_range_def bytes_to_copy_def fixed_range_writes_def mem_read_def
          memcpy_def Let_def upt_rec bytes_written_def)
  have cvals: "fill_value ex_constants (attr_type ex_schema ''v'') = [0, 0, 0, 128] \<and>
                datatype_size ex_constants (attr_type ex_schema ''v'') = 4"
    by (simp add: ex_constants_def)
  from var fixed cvals show ?thesis by blast
qed

subsection \<open>Dense reads over real-typed domains\<close>

lemma reset_buffer_sizes_schema [simp]:
  "array_schema (reset_buffer_sizes r) = array_schema r"
  "sparse_mode (reset_buffer_sizes r) = sparse_mode r"
  "read_state_2_overflowed (reset_buffer_sizes r) = read_state_2_overflowed r"
  "read_state_overflowed (reset_buffer_sizes r) = read_state_overflowed r"
  "read_state_2_partitioner (reset_buffer_sizes r) = read_state_2_partitioner r"
  by (simp_all add: reset_buffer_sizes_def)








subsection \<open>Dense cell ranges over three overlapping fragments\<close>

text \<open>
  Claim C1. For sorted, within-fragment-disjoint ranges inside the window,
  \<open>compute_dense_cell_ranges\<close> is specified to emit consecutive, disjoint ranges that cover
  the window exactly, each annotated with the newest fragment covering it. With fragment 0
  holding \<open>[3, 9]\<close>, fragment 1 holding \<open>[4, 4]\<close> and fragment 2 holding \<open>[0, 5]\<close>, window
  \<open>[0, 9]\<close>, the function returns Ok with five ranges: \<open>[0, 2]\<close> and \<open>[3, 5]\<close> of fragment
  2, then the inverted range \<open>[6, 3]\<close> of fragment 0, then \<open>[4, 4]\<close> of fragment 1 and
  \<open>[5, 9]\<close> of fragment 0. They are not a consecutive cover of the window, and position 4,
  whose newest fragment is 2, is emitted a second time under fragment 1. The range
  \<open>[3, 9]\<close> of fragment 0 is popped when \<open>start\<close> is already 6, and the partial-result
  test compares the start of the stale top \<open>[4, 4]\<close> with the start of the popped range, not
  with \<open>start\<close>.
\<close>

theorem compute_dense_cell_ranges_three_fragments:
  "compute_dense_cell_ranges 10 dense_cell_range_cmp ex_dense_reader [0] ex_frag_its 0 9 [] =
     Returns (Ok, [[], [], []],
       [empty_dense_cell_range 2 [0] 0 2,
        empty_dense_cell_range 2 [0] 3 5,
        empty_dense_cell_range 0 [0] 6 3,
        empty_dense_cell_range 1 [0] 4 4,
        empty_dense_cell_range 0 [0] 5 9]) \<and>
   \<not> spec_consecutive_cover 0 9
       [empty_dense_cell_range 2 [0] 0 2,
        empty_dense_cell_range 2 [0] 3 5,
        empty_dense_cell_range 0 [0] 6 3,
        empty_dense_cell_range 1 [0] 4 4,
        empty_dense_cell_range 0 [0] 5 9] \<and>
   spec_newest_fragment ex_frag_its 4 = 2 \<and>
   \<not> spec_annotated_newest ex_frag_its (empty_dense_cell_range 1 [0] 4 4)"
  by code_simp


end
